theory Spec2Isabelle
  imports
    Main
    "HOL-Library.Sublist"
    "HOL-Library.Char_ord"
    "HOL-Library.List_Lexorder"
    "HOL-Library.Multiset"
begin

section \<open>The test load-balance runner \<^verbatim>\<open>hack/run_test_job_balance.py\<close>\<close>

text \<open>
  The script queries five build parameters from the shell while the module is loaded,
  parses two job numbers, collects the end-to-end test files, keeps those whose position
  in the sorted list is congruent to the job index, and runs the test runner on them.

  A Python \<^verbatim>\<open>str\<close> is a \<^typ>\<open>string\<close> here, one \<^typ>\<open>char\<close> per code point, which
  covers the code points below 256. Python's \<^verbatim>\<open>int\<close> is \<^typ>\<open>int\<close>. Everything the script
  reads from outside (the shell, the command line, the file system, the environment, the
  exit status of the runner) is a field of the record \<open>world\<close>; exceptions are values of
  the type \<open>error\<close>, and every function that spawns a process or scans the file system
  returns the list of these events next to its result. The \<^verbatim>\<open>logging.info\<close> calls only
  write to the log and are left out, with \<^verbatim>\<open>average_workload\<close>, which only they read.
\<close>

subsection \<open>Exceptions and events\<close>

datatype error =
    CalledProcessError int string
  | UnicodeDecodeError
  | SystemExit int
  | ValueError string
  | RuntimeError string
  | ZeroDivisionError

datatype event =
    Check_output string
  | Glob string
  | Run string "string \<rightharpoonup> string"

datatype mode = Safe | Import

fun mode_str :: "mode \<Rightarrow> string" where
  "mode_str Safe = ''safe''"
| "mode_str Import = ''import''"

record namespace =
  ns_ci_index :: string
  ns_ci_total :: string
  ns_export_cache :: bool

text \<open>
  \<^item> \<open>sh c\<close>: the exit status of \<^verbatim>\<open>sh -c c\<close> and its standard output decoded as UTF-8
    (\<open>None\<close> when the bytes do not decode). The repository state is fixed during a run,
    so the same command gives the same answer.
  \<^item> \<open>parse_args\<close>: what \<^verbatim>\<open>parser.parse_args()\<close> makes of the command line, the namespace
    or the status it exits with.
  \<^item> \<open>int_of_str\<close>: the built-in \<^verbatim>\<open>int\<close> on a \<^verbatim>\<open>str\<close>; \<open>None\<close> is its \<^verbatim>\<open>ValueError\<close>.
  \<^item> \<open>glob p\<close>: the paths \<^verbatim>\<open>glob.glob(p, recursive=True)\<close> returns.
  \<^item> \<open>set_order\<close>: the iteration order of a Python set of paths, which the language leaves
    open: a set is listed by increasing \<open>set_order\<close>.
  \<^item> \<open>environ\<close>: \<^verbatim>\<open>os.environ\<close>.
  \<^item> \<open>returncode c e\<close>: the return code of \<^verbatim>\<open>subprocess.run(c, shell=True, env=e)\<close>.
\<close>

record world =
  sh :: "string \<Rightarrow> int \<times> string option"
  parse_args :: "int + namespace"
  int_of_str :: "string \<Rightarrow> int option"
  glob :: "string \<Rightarrow> string list"
  set_order :: "string \<Rightarrow> nat"
  environ :: "string \<rightharpoonup> string"
  returncode :: "string \<Rightarrow> (string \<rightharpoonup> string) \<Rightarrow> int"

subsection \<open>Built-ins of the language\<close>

definition isspace :: "char \<Rightarrow> bool" where
  "isspace c = (of_char c \<in> {9, 10, 11, 12, 13, 28, 29, 30, 31, 32, 133, 160 :: nat})"

definition rstrip :: "string \<Rightarrow> string" where
  "rstrip s = rev (dropWhile isspace (rev s))"

definition strip :: "string \<Rightarrow> string" where
  "strip s = rstrip (dropWhile isspace s)"

definition endswith :: "string \<Rightarrow> string \<Rightarrow> bool" where
  "endswith s suf = suffix suf s"

text \<open>\<^verbatim>\<open>str(n)\<close>, which an f-string applies to an \<^verbatim>\<open>int\<close>: the decimal digits, after a minus sign
  when \<open>n\<close> is negative.\<close>

fun str_nat :: "nat \<Rightarrow> string" where
  "str_nat n =
     (if n < 10 then [''0123456789'' ! n]
      else str_nat (n div 10) @ [''0123456789'' ! (n mod 10)])"

declare str_nat.simps [simp del]

definition str_int :: "int \<Rightarrow> string" where
  "str_int i = (if i < 0 then CHR ''-'' # str_nat (nat (- i)) else str_nat (nat i))"

text \<open>The number that a string of decimal digits denotes, to state what \<open>str_nat\<close> renders.\<close>

definition decimal_value :: "string \<Rightarrow> nat" where
  "decimal_value s = foldl (\<lambda>a c. 10 * a + (of_char c - 48)) 0 s"

text \<open>\<^verbatim>\<open>list(set(a) - set(b))\<close>: the elements of \<open>a\<close> that are not in \<open>b\<close>, each once, in the
  order the set iterates in.\<close>

definition list_of_set_difference :: "(string \<Rightarrow> nat) \<Rightarrow> string list \<Rightarrow> string list \<Rightarrow> string list" where
  "list_of_set_difference order a b = sort_key order (remdups (filter (\<lambda>x. x \<notin> set b) a))"

subsection \<open>Module constants\<close>

definition TEST_NAME_SYMBOL :: string where
  "TEST_NAME_SYMBOL = ''It''"

definition DYNAMIC_NODE_SYMBOL :: string where
  "DYNAMIC_NODE_SYMBOL = ''undefined''"

definition EXTRACT_GLOB_PATH :: string where
  "EXTRACT_GLOB_PATH = ''e2e/**/*.go''"

definition EXCLUDE_GLOB_PATH :: string where
  "EXCLUDE_GLOB_PATH = ''e2e/*/docs/*.go''"

definition ROOT :: string where
  "ROOT = ''github.com/tensorchord/envd''"

text \<open>The five build parameters are the outputs of five shell commands, read when the
  module is loaded, each through
  \<^verbatim>\<open>subprocess.check_output(c, shell=True).decode().strip().rstrip()\<close>.\<close>

definition VERSION_command :: string where
  "VERSION_command = ''git describe --match 'v[0-9]*' --always --tags --abbrev=0''"

definition BUILD_DATE_command :: string where
  "BUILD_DATE_command = ''date -u +'%Y-%m-%dT%H:%M:%SZ'' @ [CHR 0x27]"

definition GIT_COMMIT_command :: string where
  "GIT_COMMIT_command = ''git rev-parse HEAD''"

definition GIT_TREE_STATE_command :: string where
  "GIT_TREE_STATE_command = ''git rev-parse HEAD''"

definition GIT_TAG_command :: string where
  "GIT_TAG_command = ''git describe --tags --abbrev=0''"

definition check_output_text :: "world \<Rightarrow> string \<Rightarrow> error + string" where
  "check_output_text w c =
     (case sh w c of
        (status, out) \<Rightarrow>
          if status \<noteq> 0 then Inl (CalledProcessError status c)
          else (case out of
                  None \<Rightarrow> Inl UnicodeDecodeError
                | Some s \<Rightarrow> Inr (rstrip (strip s))))"

record globals =
  VERSION :: string
  BUILD_DATE :: string
  GIT_COMMIT :: string
  GIT_TREE_STATE :: string
  GIT_TAG :: string

text \<open>Loading the module runs the five commands in the order of the file; the first one
  that fails ends the program with its exception, before \<^verbatim>\<open>main\<close> is reached.\<close>

definition load_module :: "world \<Rightarrow> event list \<times> (error + globals)" where
  "load_module w =
     (case check_output_text w VERSION_command of
        Inl e \<Rightarrow> ([Check_output VERSION_command], Inl e)
      | Inr version \<Rightarrow>
     (case check_output_text w BUILD_DATE_command of
        Inl e \<Rightarrow> ([Check_output VERSION_command, Check_output BUILD_DATE_command], Inl e)
      | Inr build_date \<Rightarrow>
     (case check_output_text w GIT_COMMIT_command of
        Inl e \<Rightarrow>
          ([Check_output VERSION_command, Check_output BUILD_DATE_command,
            Check_output GIT_COMMIT_command], Inl e)
      | Inr git_commit \<Rightarrow>
     (case check_output_text w GIT_TREE_STATE_command of
        Inl e \<Rightarrow>
          ([Check_output VERSION_command, Check_output BUILD_DATE_command,
            Check_output GIT_COMMIT_command, Check_output GIT_TREE_STATE_command], Inl e)
      | Inr git_tree_state \<Rightarrow>
     (case check_output_text w GIT_TAG_command of
        Inl e \<Rightarrow>
          ([Check_output VERSION_command, Check_output BUILD_DATE_command,
            Check_output GIT_COMMIT_command, Check_output GIT_TREE_STATE_command,
            Check_output GIT_TAG_command], Inl e)
      | Inr git_tag \<Rightarrow>
          ([Check_output VERSION_command, Check_output BUILD_DATE_command,
            Check_output GIT_COMMIT_command, Check_output GIT_TREE_STATE_command,
            Check_output GIT_TAG_command],
           Inr \<lparr>VERSION = version, BUILD_DATE = build_date, GIT_COMMIT = git_commit,
                GIT_TREE_STATE = git_tree_state, GIT_TAG = git_tag\<rparr>))))))"

subsection \<open>\<^verbatim>\<open>extract_files\<close>\<close>

definition extract_files :: "world \<Rightarrow> string list" where
  "extract_files w =
     (let test_files =
            list_of_set_difference (set_order w)
              (glob w EXTRACT_GLOB_PATH) (glob w EXCLUDE_GLOB_PATH);
          test_files = filter (\<lambda>file. \<not> endswith file ''suite_test.go'') test_files;
          test_files = filter (\<lambda>file. \<not> endswith file ''e2e_helper.go'') test_files
      in test_files)"

subsection \<open>\<^verbatim>\<open>run_test\<close>\<close>

text \<open>The files of one job: \<^verbatim>\<open>[files[i] for i in range(len(files)) if i % ci_total == ci_index]\<close>.
  Python's \<^verbatim>\<open>%\<close> and \<open>mod\<close> on \<^typ>\<open>int\<close> both take the sign of the divisor; the division by
  zero is raised in \<open>run_test\<close>.\<close>

definition desc_run :: "string list \<Rightarrow> int \<Rightarrow> int \<Rightarrow> string list" where
  "desc_run files ci_index ci_total =
     map (\<lambda>i. files ! i) (filter (\<lambda>i. int i mod ci_total = ci_index) [0..<length files])"

definition desc_regex :: "string list \<Rightarrow> string" where
  "desc_regex run = concat (map (\<lambda>decs. ''--focus-file \"'' @ decs @ ''\" '') run)"

text \<open>The command line of the runner. A backslash at the end of a line of the literal joins
  it to the next line, whose twelve leading blanks stay in the string.\<close>

definition cmd :: "globals \<Rightarrow> mode \<Rightarrow> int \<Rightarrow> string \<Rightarrow> string" where
  "cmd g mode ci_index regex =
     ''ginkgo run -r --ldflags \"-s -w -X '' @ ROOT @ ''/pkg/version.version='' @ VERSION g @ '' ''
     @ ''            -X '' @ ROOT @ ''/pkg/version.buildDate='' @ BUILD_DATE g @ '' ''
     @ ''            -X '' @ ROOT @ ''/pkg/version.gitCommit='' @ GIT_COMMIT g @ '' ''
     @ ''            -X '' @ ROOT @ ''/pkg/version.gitTreeState='' @ GIT_TREE_STATE g @ '' ''
     @ ''            -X '' @ ROOT @ ''/pkg/version.gitTag='' @ GIT_TAG g @ '' ''
     @ ''            -X '' @ ROOT @ ''/pkg/version.developmentFlag=true ''
     @ ''            -X '' @ ROOT @ ''/pkg/version.ghaBuildMode='' @ mode_str mode @ ''\" ''
     @ ''            --cover --covermode atomic --coverprofile e2e-'' @ str_int ci_index
     @ ''-coverage.out ''
     @ ''            --coverpkg '' @ ROOT @ ''/pkg/... '' @ regex
     @ '' -v --timeout 15m --race ./e2e/...''"

definition proc_env :: "globals \<Rightarrow> world \<Rightarrow> (string \<rightharpoonup> string)" where
  "proc_env g w = ((environ w)(''GIT_LATEST_TAG'' \<mapsto> GIT_TAG g))(''ENVD_ANALYTICS'' \<mapsto> ''false'')"

definition run_test ::
  "globals \<Rightarrow> world \<Rightarrow> string list \<Rightarrow> int \<Rightarrow> int \<Rightarrow> mode \<Rightarrow> event list \<times> (error + unit)" where
  "run_test g w files ci_index ci_total mode =
     (if files \<noteq> [] \<and> ci_total = 0 then ([], Inl ZeroDivisionError)
      else
        let c = cmd g mode ci_index (desc_regex (desc_run files ci_index ci_total));
            e = proc_env g w;
            code = returncode w c e
        in ([Run c e],
            if code \<noteq> 0
            then Inl (RuntimeError (''ginkgo test failed: return code '' @ str_int code))
            else Inr ()))"

subsection \<open>\<^verbatim>\<open>main\<close> and the script\<close>

definition bad_argument :: "int \<Rightarrow> int \<Rightarrow> string" where
  "bad_argument ci_index ci_total =
     ''bad argument ci_index '' @ str_int ci_index @ '' and ci_total '' @ str_int ci_total
     @ '', should be 0 <= ci_index < ci_total''"

definition test_files :: "world \<Rightarrow> string list" where
  "test_files w = sort (extract_files w)"

definition main :: "globals \<Rightarrow> world \<Rightarrow> event list \<times> (error + unit)" where
  "main g w =
     (case parse_args w of
        Inl status \<Rightarrow> ([], Inl (SystemExit status))
      | Inr args \<Rightarrow>
     (case int_of_str w (ns_ci_index args) of
        None \<Rightarrow> ([], Inl (ValueError (ns_ci_index args)))
      | Some ci_index \<Rightarrow>
     (case int_of_str w (ns_ci_total args) of
        None \<Rightarrow> ([], Inl (ValueError (ns_ci_total args)))
      | Some ci_total \<Rightarrow>
          let mode = (if ns_export_cache args then Safe else Import) in
          if ci_index \<ge> ci_total \<or> ci_index < 0 \<or> ci_total \<le> 0
          then ([], Inl (RuntimeError (bad_argument ci_index ci_total)))
          else
            (case run_test g w (test_files w) ci_index ci_total mode of
               (events, result) \<Rightarrow>
                 (Glob EXTRACT_GLOB_PATH # Glob EXCLUDE_GLOB_PATH # events, result)))))"

text \<open>The script as it is run: the module is loaded, then \<^verbatim>\<open>main()\<close> is called.\<close>

definition script :: "world \<Rightarrow> event list \<times> (error + unit)" where
  "script w =
     (case load_module w of
        (events, Inl e) \<Rightarrow> (events, Inl e)
      | (events, Inr g) \<Rightarrow>
          (case main g w of (events', result) \<Rightarrow> (events @ events', result)))"

text \<open>The exit status the interpreter gives the process: the argument of \<^verbatim>\<open>SystemExit\<close>,
  1 for any other exception that reaches the top, 0 when the script returns.\<close>

fun exit_status :: "error + unit \<Rightarrow> int" where
  "exit_status (Inr u) = 0"
| "exit_status (Inl (SystemExit status)) = status"
| "exit_status (Inl e) = 1"

subsection \<open>Sample runs\<close>

text \<open>The five commands of the module, in the order in which it runs them.\<close>

definition build_queries :: "event list" where
  "build_queries =
     [Check_output VERSION_command, Check_output BUILD_DATE_command,
      Check_output GIT_COMMIT_command, Check_output GIT_TREE_STATE_command,
      Check_output GIT_TAG_command]"

text \<open>A run of job 0 of 2 in a checkout with six paths under \<^verbatim>\<open>e2e\<close>, in which the runner
  fails with status 1; the same run with the arguments \<^verbatim>\<open>2 2\<close>; and the same run with a
  runner that succeeds.\<close>

definition example_world :: world where
  "example_world =
     \<lparr>sh = (\<lambda>c. (0, Some (if c = BUILD_DATE_command then ''2022-10-01T08:00:00Z'' @ [CHR 0x0A]
                          else if c = GIT_COMMIT_command then ''4f2a9c1'' @ [CHR 0x0A]
                          else ''v0.3.1'' @ [CHR 0x0A]))),
      parse_args = Inr \<lparr>ns_ci_index = ''0'', ns_ci_total = ''2'', ns_export_cache = False\<rparr>,
      int_of_str = (\<lambda>s. if s = ''0'' then Some 0 else if s = ''2'' then Some 2 else None),
      glob = (\<lambda>p. if p = EXTRACT_GLOB_PATH
                 then [''e2e/cli/up_test.go'', ''e2e/cli/docs/doc_test.go'',
                       ''e2e/cli/suite_test.go'', ''e2e/e2e_helper.go'',
                       ''e2e/language/python_test.go'', ''e2e/cli/up_test.go'']
                 else if p = EXCLUDE_GLOB_PATH then [''e2e/cli/docs/doc_test.go''] else []),
      set_order = length,
      environ = [''HOME'' \<mapsto> ''/root'', ''ENVD_ANALYTICS'' \<mapsto> ''true''],
      returncode = (\<lambda>c e. 1)\<rparr>"

definition rejected_world :: world where
  "rejected_world =
     example_world
       \<lparr>parse_args := Inr \<lparr>ns_ci_index = ''2'', ns_ci_total = ''2'', ns_export_cache = False\<rparr>\<rparr>"

definition passing_world :: world where
  "passing_world = example_world\<lparr>returncode := (\<lambda>c e. 0)\<rparr>"

definition example_globals :: globals where
  "example_globals =
     \<lparr>VERSION = ''v0.3.1'', BUILD_DATE = ''2022-10-01T08:00:00Z'', GIT_COMMIT = ''4f2a9c1'',
      GIT_TREE_STATE = ''4f2a9c1'', GIT_TAG = ''v0.3.1''\<rparr>"

section \<open>Shard selection\<close>

text \<open>The files of a job are read off the positions of the list, so the multiset of a
  shard is the image of the multiset of the positions that the job owns.\<close>

lemma mset_desc_run:
  "mset (desc_run files j t) =
     image_mset (\<lambda>i. files ! i) (filter_mset (\<lambda>i. int i mod t = j) (mset [0..<length files]))"
  by (simp add: desc_run_def)

lemma set_desc_run:
  "set (desc_run files j t) = {files ! i |i. i < length files \<and> int i mod t = j}"
  by (auto simp: desc_run_def)

lemma sum_filter_mset_key:
  fixes key :: "'a \<Rightarrow> int"
  assumes "finite A" and "\<forall>x \<in># M. key x \<in> A"
  shows "(\<Sum>j\<in>A. filter_mset (\<lambda>x. key x = j) M) = M"
proof (rule multiset_eqI)
  fix x
  show "count (\<Sum>j\<in>A. filter_mset (\<lambda>x. key x = j) M) x = count M x"
  proof (cases "x \<in># M")
    case True
    then have in_A: "key x \<in> A"
      using assms(2) by blast
    have "count (\<Sum>j\<in>A. filter_mset (\<lambda>x. key x = j) M) x =
            (\<Sum>j\<in>A. count (filter_mset (\<lambda>x. key x = j) M) x)"
      by (simp add: count_sum)
    also have "\<dots> = (\<Sum>j\<in>A. if key x = j then count M x else 0)"
      by (intro sum.cong) auto
    also have "\<dots> = count M x"
      using in_A assms(1) by simp
    finally show ?thesis .
  next
    case False
    then have "\<forall>j\<in>A. count (filter_mset (\<lambda>x. key x = j) M) x = 0"
      by (simp add: not_in_iff)
    with False show ?thesis
      by (simp add: count_sum not_in_iff)
  qed
qed

lemma image_mset_sum:
  "image_mset f (\<Sum>j\<in>A. g j) = (\<Sum>j\<in>A. image_mset f (g j))"
  by (induction A rule: infinite_finite_induct) simp_all

lemma desc_run_partition_mset:
  assumes "0 < t"
  shows "(\<Sum>j = 0..<t. mset (desc_run files j t)) = mset files"
proof -
  have "(\<Sum>j = 0..<t. mset (desc_run files j t)) =
          image_mset (\<lambda>i. files ! i)
            (\<Sum>j = 0..<t. filter_mset (\<lambda>i. int i mod t = j) (mset [0..<length files]))"
    by (simp add: mset_desc_run image_mset_sum)
  also have "(\<Sum>j = 0..<t. filter_mset (\<lambda>i. int i mod t = j) (mset [0..<length files])) =
          mset [0..<length files]"
    using assms by (intro sum_filter_mset_key) auto
  also have "image_mset (\<lambda>i. files ! i) (mset [0..<length files]) = mset files"
    by (metis map_nth mset_map)
  finally show ?thesis .
qed

lemma desc_run_union:
  assumes "0 < t"
  shows "(\<Union>j\<in>{0..<t}. set (desc_run files j t)) = set files"
proof (intro set_eqI iffI)
  fix f
  assume "f \<in> (\<Union>j\<in>{0..<t}. set (desc_run files j t))"
  then show "f \<in> set files"
    by (auto simp: set_desc_run)
next
  fix f
  assume "f \<in> set files"
  then obtain i where i: "i < length files" "files ! i = f"
    by (auto simp: in_set_conv_nth)
  have "int i mod t \<in> {0..<t}"
    using assms by simp
  moreover have "f \<in> set (desc_run files (int i mod t) t)"
    using i by (auto simp: set_desc_run)
  ultimately show "f \<in> (\<Union>j\<in>{0..<t}. set (desc_run files j t))"
    by blast
qed

lemma desc_run_disjoint:
  assumes "distinct files" and "j \<noteq> k"
  shows "set (desc_run files j t) \<inter> set (desc_run files k t) = {}"
  using assms by (auto simp: set_desc_run nth_eq_iff_index_eq)

lemma desc_run_unique_job:
  assumes "0 < t" and "distinct files" and "f \<in> set files"
  shows "\<exists>!j. 0 \<le> j \<and> j < t \<and> f \<in> set (desc_run files j t)"
proof -
  from assms(3) obtain i where i: "i < length files" "files ! i = f"
    by (auto simp: in_set_conv_nth)
  show ?thesis
  proof (rule ex1I [of _ "int i mod t"])
    show "0 \<le> int i mod t \<and> int i mod t < t \<and> f \<in> set (desc_run files (int i mod t) t)"
      using assms(1) i by (auto simp: set_desc_run)
  next
    fix j
    assume "0 \<le> j \<and> j < t \<and> f \<in> set (desc_run files j t)"
    then show "j = int i mod t"
      using i assms(2) by (auto simp: set_desc_run nth_eq_iff_index_eq)
  qed
qed

text \<open>
  Claim C1. For every number of jobs \<open>ci_total > 0\<close> the shards of the job indices
  \<open>0, \<dots>, ci_total - 1\<close> split the file list: added up as multisets they give the list
  back, so every entry of the list goes to one job and to no other, and the union of their
  files is the set of all files. For a file set, that is a list without repeated paths, two
  different jobs share no file and every file is in the shard of exactly one job.
\<close>

theorem desc_run_partition:
  assumes "0 < ci_total"
  shows "(\<Sum>j = 0..<ci_total. mset (desc_run files j ci_total)) = mset files
       \<and> (\<Union>j\<in>{0..<ci_total}. set (desc_run files j ci_total)) = set files
       \<and> (distinct files \<longrightarrow>
            (\<forall>j k. j \<noteq> k \<longrightarrow>
               set (desc_run files j ci_total) \<inter> set (desc_run files k ci_total) = {})
          \<and> (\<forall>f\<in>set files. \<exists>!j. 0 \<le> j \<and> j < ci_total \<and> f \<in> set (desc_run files j ci_total)))"
proof (intro conjI impI allI ballI)
  show "(\<Sum>j = 0..<ci_total. mset (desc_run files j ci_total)) = mset files"
    using assms by (rule desc_run_partition_mset)
  show "(\<Union>j\<in>{0..<ci_total}. set (desc_run files j ci_total)) = set files"
    using assms by (rule desc_run_union)
next
  fix j k :: int
  assume "distinct files" and "j \<noteq> k"
  then show "set (desc_run files j ci_total) \<inter> set (desc_run files k ci_total) = {}"
    by (rule desc_run_disjoint)
next
  fix f
  assume "distinct files" and "f \<in> set files"
  with assms show "\<exists>!j. 0 \<le> j \<and> j < ci_total \<and> f \<in> set (desc_run files j ci_total)"
    by (rule desc_run_unique_job)
qed


theorem desc_run_partition_witness:
  "(0::int) < 2
   \<and> distinct [''a.go'', ''b.go'', ''c.go'']
   \<and> (\<Sum>j = 0..<2. mset (desc_run [''a.go'', ''b.go'', ''c.go''] j 2)) =
       mset [''a.go'', ''b.go'', ''c.go'']
   \<and> set (desc_run [''a.go'', ''b.go'', ''c.go''] 0 2) \<inter>
       set (desc_run [''a.go'', ''b.go'', ''c.go''] 1 2) = {}"
proof -
  have pos: "(0::int) < 2"
    by simp
  have dist: "distinct [''a.go'', ''b.go'', ''c.go'']"
    by simp
  have ne: "(0::int) \<noteq> 1"
    by simp
  note part = desc_run_partition [OF pos, of "[''a.go'', ''b.go'', ''c.go'']"]
  from part have sum: "(\<Sum>j = 0..<2. mset (desc_run [''a.go'', ''b.go'', ''c.go''] j 2)) =
      mset [''a.go'', ''b.go'', ''c.go'']"
    by (rule conjunct1)
  from part dist
  have "\<forall>j k. j \<noteq> k \<longrightarrow>
      set (desc_run [''a.go'', ''b.go'', ''c.go''] j 2) \<inter>
      set (desc_run [''a.go'', ''b.go'', ''c.go''] k 2) = {}"
    by (elim conjE impE) assumption+
  with ne have inter: "set (desc_run [''a.go'', ''b.go'', ''c.go''] 0 2) \<inter>
      set (desc_run [''a.go'', ''b.go'', ''c.go''] 1 2) = {}"
    by (elim allE impE) assumption+
  from pos dist sum inter show ?thesis
    by (intro conjI)
qed

text \<open>
  Claim C4. Of the sorted list \<open>a.go, b.go, c.go, d.go, e.go\<close> and two jobs, job 0 gets
  \<open>a.go, c.go, e.go\<close> and job 1 gets \<open>b.go, d.go\<close>; the list is the sorted one, since
  sorting leaves it as it is.
\<close>

theorem desc_run_five_files:
  "desc_run [''a.go'', ''b.go'', ''c.go'', ''d.go'', ''e.go''] 0 2 = [''a.go'', ''c.go'', ''e.go'']
   \<and> desc_run [''a.go'', ''b.go'', ''c.go'', ''d.go'', ''e.go''] 1 2 = [''b.go'', ''d.go'']
   \<and> sort [''a.go'', ''b.go'', ''c.go'', ''d.go'', ''e.go''] =
       [''a.go'', ''b.go'', ''c.go'', ''d.go'', ''e.go'']"
  by (simp add: desc_run_def upt_rec)

section \<open>File discovery\<close>

lemma set_list_of_set_difference:
  "set (list_of_set_difference order a b) = set a - set b"
  by (auto simp: list_of_set_difference_def)

lemma distinct_list_of_set_difference:
  "distinct (list_of_set_difference order a b)"
  by (simp add: list_of_set_difference_def)

lemma filter_eq_singleton:
  assumes "distinct zs" "k \<in> set zs"
  shows "filter (\<lambda>x. k = x) zs = [k]"
  using assms by (induction zs) (auto simp: filter_empty_conv)

text \<open>The order in which a Python set is listed is not fixed by the language. The model
  leaves it to \<open>set_order\<close>, and every listing of the set difference comes from some
  \<open>set_order\<close>, so a statement about every world is one about every order.\<close>

lemma every_listing_arises:
  assumes "distinct ys" and "set ys = set a - set b"
  shows "\<exists>order. list_of_set_difference order a b = ys"
proof -
  define order where "order x = length (takeWhile (\<lambda>y. y \<noteq> x) ys)" for x
  let ?xs = "remdups (filter (\<lambda>x. x \<notin> set b) a)"
  have xs: "distinct ?xs" "set ?xs = set ys"
    using assms(2) by auto
  from assms(1) xs(1) have "set ys = set ?xs \<longleftrightarrow> mset ys = mset ?xs"
    by (rule set_eq_iff_mset_eq_distinct)
  with xs(2) have m: "mset ys = mset ?xs"
    by simp
  have at: "order (ys ! i) = i" if "i < length ys" for i
  proof -
    have "takeWhile (\<lambda>y. y \<noteq> ys ! i) ys = take i ys"
      using that assms(1) by (intro takeWhile_eq_take_P_nth) (auto simp: nth_eq_iff_index_eq)
    with that show ?thesis by (simp add: order_def)
  qed
  then have idx: "map order ys = [0..<length ys]"
    by (intro nth_equalityI) simp_all
  have inj: "order k = order x \<longleftrightarrow> k = x" if "k \<in> set ys" "x \<in> set ys" for k x
    using that at by (metis in_set_conv_nth)
  have filt: "filter (\<lambda>x. order k = order x) zs = [k]"
    if "k \<in> set ys" "set zs = set ys" "distinct zs" for k zs
  proof -
    have "filter (\<lambda>x. order k = order x) zs = filter (\<lambda>x. k = x) zs"
      using that inj by (intro filter_cong) auto
    with that show ?thesis by (simp add: filter_eq_singleton)
  qed
  have "sort_key order ?xs = ys"
  proof (rule properties_for_sort_key [OF m])
    show "sorted (map order ys)" by (simp add: idx)
  next
    fix k assume "k \<in> set ys"
    then show "filter (\<lambda>x. order k = order x) ys = filter (\<lambda>x. order k = order x) ?xs"
      using filt [of k ys] filt [of k ?xs] xs assms(1) by simp
  qed
  then show ?thesis
    by (auto simp: list_of_set_difference_def)
qed

lemma set_extract_files:
  "set (extract_files w) =
     {f \<in> set (glob w EXTRACT_GLOB_PATH) - set (glob w EXCLUDE_GLOB_PATH).
        \<not> endswith f ''suite_test.go'' \<and> \<not> endswith f ''e2e_helper.go''}"
  by (auto simp: extract_files_def Let_def set_list_of_set_difference)

lemma distinct_extract_files: "distinct (extract_files w)"
  by (simp add: extract_files_def Let_def distinct_list_of_set_difference)

lemma extract_files_example:
  "extract_files example_world = [''e2e/cli/up_test.go'', ''e2e/language/python_test.go'']"
  by (simp add: extract_files_def example_world_def list_of_set_difference_def endswith_def
      EXTRACT_GLOB_PATH_def EXCLUDE_GLOB_PATH_def suffix_to_prefix)

text \<open>
  Claim C5. Whatever the file system holds, no path that \<^verbatim>\<open>extract_files\<close> returns is among
  the paths the exclusion pattern \<^verbatim>\<open>e2e/*/docs/*.go\<close> matches, and none ends in
  \<^verbatim>\<open>suite_test.go\<close> or in \<^verbatim>\<open>e2e_helper.go\<close>.
\<close>

theorem extract_files_excludes:
  "\<forall>f \<in> set (extract_files w).
     f \<notin> set (glob w EXCLUDE_GLOB_PATH)
     \<and> \<not> endswith f ''suite_test.go''
     \<and> \<not> endswith f ''e2e_helper.go''"
  by (simp add: set_extract_files)

text \<open>In the sample checkout the inclusion pattern matches a docs test, the suite file and
  the helper; the path that is returned is none of them.\<close>

theorem extract_files_excludes_witness:
  "''e2e/cli/docs/doc_test.go'' \<in> set (glob example_world EXTRACT_GLOB_PATH)
   \<and> ''e2e/cli/suite_test.go'' \<in> set (glob example_world EXTRACT_GLOB_PATH)
   \<and> ''e2e/e2e_helper.go'' \<in> set (glob example_world EXTRACT_GLOB_PATH)
   \<and> ''e2e/cli/up_test.go'' \<in> set (extract_files example_world)
   \<and> ''e2e/cli/up_test.go'' \<notin> set (glob example_world EXCLUDE_GLOB_PATH)
   \<and> \<not> endswith ''e2e/cli/up_test.go'' ''suite_test.go''
   \<and> \<not> endswith ''e2e/cli/up_test.go'' ''e2e_helper.go''"
proof -
  have found: "''e2e/cli/docs/doc_test.go'' \<in> set (glob example_world EXTRACT_GLOB_PATH)"
    "''e2e/cli/suite_test.go'' \<in> set (glob example_world EXTRACT_GLOB_PATH)"
    "''e2e/e2e_helper.go'' \<in> set (glob example_world EXTRACT_GLOB_PATH)"
    by (simp_all add: example_world_def)
  have kept: "''e2e/cli/up_test.go'' \<in> set (extract_files example_world)"
    by (simp add: extract_files_example)
  from extract_files_excludes [of example_world] kept
  have "''e2e/cli/up_test.go'' \<notin> set (glob example_world EXCLUDE_GLOB_PATH)
      \<and> \<not> endswith ''e2e/cli/up_test.go'' ''suite_test.go''
      \<and> \<not> endswith ''e2e/cli/up_test.go'' ''e2e_helper.go''"
    by (rule bspec)
  with found kept show ?thesis
    by (intro conjI) simp_all
qed

text \<open>
  Claim C7. The list that \<^verbatim>\<open>main\<close> hands to \<^verbatim>\<open>run_test\<close>, the sorted result of
  \<^verbatim>\<open>extract_files\<close>, has no path twice and is in ascending lexicographic order, whatever
  the file system holds and in whatever order the set of paths is listed.
\<close>

theorem test_files_sorted_distinct:
  "distinct (test_files w) \<and> sorted (test_files w) \<and> set (test_files w) = set (extract_files w)"
  by (simp add: test_files_def distinct_extract_files)

section \<open>Running the tests of a job\<close>

text \<open>\<open>str_nat\<close> writes a number in decimal: read back digit by digit, its result is the
  number.\<close>

lemma digit_value: "k < 10 \<Longrightarrow> of_char (''0123456789'' ! k) - 48 = (k::nat)"
proof -
  assume "k < 10"
  then have "k \<in> {0, 1, 2, 3, 4, 5, 6, 7, 8, 9}"
    by auto
  then show ?thesis
    by (elim insertE emptyE) simp_all
qed

lemma decimal_value_str_nat: "decimal_value (str_nat n) = n"
proof (induction n rule: str_nat.induct)
  case (1 n)
  show ?case
  proof (cases "n < 10")
    case True
    then have "str_nat n = [''0123456789'' ! n]"
      by (subst str_nat.simps) (simp only: if_True)
    with digit_value [OF True] show ?thesis
      by (simp only: decimal_value_def foldl.simps)
  next
    case False
    then have "str_nat n = str_nat (n div 10) @ [''0123456789'' ! (n mod 10)]"
      by (subst str_nat.simps) (simp only: if_False)
    moreover have "of_char (''0123456789'' ! (n mod 10)) - 48 = n mod 10"
      by (rule digit_value) simp
    ultimately show ?thesis
      using 1 [OF False] by (simp add: decimal_value_def)
  qed
qed

lemma fst_run_test:
  assumes "files = [] \<or> ci_total \<noteq> 0"
  shows "fst (run_test g w files ci_index ci_total mode) =
           [Run (cmd g mode ci_index (desc_regex (desc_run files ci_index ci_total)))
              (proc_env g w)]"
  using assms by (auto simp: run_test_def Let_def)

lemma snd_run_test:
  assumes "files = [] \<or> ci_total \<noteq> 0"
  shows "snd (run_test g w files ci_index ci_total mode) =
           (if returncode w (cmd g mode ci_index (desc_regex (desc_run files ci_index ci_total)))
                 (proc_env g w) \<noteq> 0
            then Inl (RuntimeError (''ginkgo test failed: return code '' @
                   str_int (returncode w
                     (cmd g mode ci_index (desc_regex (desc_run files ci_index ci_total)))
                     (proc_env g w))))
            else Inr ())"
  using assms by (auto simp: run_test_def Let_def)

text \<open>
  Claim C8. The runner is started with the environment of the script in which
  \<^verbatim>\<open>ENVD_ANALYTICS\<close> is \<^verbatim>\<open>false\<close> and \<^verbatim>\<open>GIT_LATEST_TAG\<close> is the latest tag; every other
  variable has the value, or the absence, it has in the environment of the script.
\<close>

theorem run_test_child_environment:
  assumes "files = [] \<or> ci_total \<noteq> 0"
  shows "fst (run_test g w files ci_index ci_total mode) =
           [Run (cmd g mode ci_index (desc_regex (desc_run files ci_index ci_total)))
              (proc_env g w)]
       \<and> proc_env g w ''ENVD_ANALYTICS'' = Some ''false''
       \<and> proc_env g w ''GIT_LATEST_TAG'' = Some (GIT_TAG g)
       \<and> (\<forall>k. k \<noteq> ''ENVD_ANALYTICS'' \<and> k \<noteq> ''GIT_LATEST_TAG'' \<longrightarrow>
             proc_env g w k = environ w k)"
  using fst_run_test [OF assms] by (simp add: proc_env_def)

theorem run_test_child_environment_witness:
  "environ example_world ''ENVD_ANALYTICS'' = Some ''true''
   \<and> proc_env example_globals example_world ''ENVD_ANALYTICS'' = Some ''false''
   \<and> proc_env example_globals example_world ''GIT_LATEST_TAG'' = Some ''v0.3.1''
   \<and> proc_env example_globals example_world ''HOME'' = Some ''/root''
   \<and> proc_env example_globals example_world ''PATH'' = None"
proof -
  have nonzero: "[''e2e/cli/up_test.go''] = [] \<or> (2::int) \<noteq> 0"
    by simp
  have other: "''HOME'' \<noteq> ''ENVD_ANALYTICS'' \<and> ''HOME'' \<noteq> ''GIT_LATEST_TAG''"
    "''PATH'' \<noteq> ''ENVD_ANALYTICS'' \<and> ''PATH'' \<noteq> ''GIT_LATEST_TAG''"
    by simp_all
  note env =
    run_test_child_environment [OF nonzero, of example_globals example_world 0 Import]
  from env have "proc_env example_globals example_world ''ENVD_ANALYTICS'' = Some ''false''"
    and "proc_env example_globals example_world ''GIT_LATEST_TAG'' = Some (GIT_TAG example_globals)"
    and rest: "\<forall>k. k \<noteq> ''ENVD_ANALYTICS'' \<and> k \<noteq> ''GIT_LATEST_TAG'' \<longrightarrow>
      proc_env example_globals example_world k = environ example_world k"
    by simp_all
  moreover from rest other
  have "proc_env example_globals example_world ''HOME'' = environ example_world ''HOME''"
    and "proc_env example_globals example_world ''PATH'' = environ example_world ''PATH''"
    by simp_all
  ultimately show ?thesis
    by (simp add: example_world_def example_globals_def)
qed

subsection \<open>A job without files\<close>











section \<open>The script\<close>

lemma main_parsed:
  assumes "parse_args w = Inr args"
    and "int_of_str w (ns_ci_index args) = Some ci_index"
    and "int_of_str w (ns_ci_total args) = Some ci_total"
  shows "main g w =
     (if ci_index \<ge> ci_total \<or> ci_index < 0 \<or> ci_total \<le> 0
      then ([], Inl (RuntimeError (bad_argument ci_index ci_total)))
      else (Glob EXTRACT_GLOB_PATH # Glob EXCLUDE_GLOB_PATH #
              fst (run_test g w (test_files w) ci_index ci_total
                     (if ns_export_cache args then Safe else Import)),
            snd (run_test g w (test_files w) ci_index ci_total
                     (if ns_export_cache args then Safe else Import))))"
  using assms by (simp add: main_def Let_def split: prod.splits)

lemma script_loaded:
  assumes "load_module w = (events, Inr g)"
  shows "script w = (events @ fst (main g w), snd (main g w))"
  using assms by (simp add: script_def split: prod.splits)

lemma script_not_loaded:
  assumes "load_module w = (events, Inl e)"
  shows "script w = (events, Inl e)"
  using assms by (simp add: script_def)

lemma load_module_events:
  "prefix (fst (load_module w)) build_queries \<and> fst (load_module w) \<noteq> []"
  by (simp add: load_module_def build_queries_def split: sum.splits)

lemma load_module_Inr:
  assumes "load_module w = (events, Inr g)"
  shows "events = build_queries
    \<and> check_output_text w VERSION_command = Inr (VERSION g)
    \<and> check_output_text w BUILD_DATE_command = Inr (BUILD_DATE g)
    \<and> check_output_text w GIT_COMMIT_command = Inr (GIT_COMMIT g)
    \<and> check_output_text w GIT_TREE_STATE_command = Inr (GIT_TREE_STATE g)
    \<and> check_output_text w GIT_TAG_command = Inr (GIT_TAG g)"
  using assms by (auto simp: load_module_def build_queries_def split: sum.splits)

subsection \<open>The sample runs, evaluated\<close>

lemma load_module_example: "load_module example_world = (build_queries, Inr example_globals)"
  by (simp add: load_module_def example_world_def example_globals_def build_queries_def
      check_output_text_def rstrip_def strip_def isspace_def VERSION_command_def
      BUILD_DATE_command_def GIT_COMMIT_command_def GIT_TREE_STATE_command_def
      GIT_TAG_command_def)

lemma load_module_rejected: "load_module rejected_world = (build_queries, Inr example_globals)"
  by (simp add: load_module_def rejected_world_def example_world_def example_globals_def
      build_queries_def check_output_text_def rstrip_def strip_def isspace_def
      VERSION_command_def BUILD_DATE_command_def GIT_COMMIT_command_def
      GIT_TREE_STATE_command_def GIT_TAG_command_def)

lemma load_module_passing: "load_module passing_world = (build_queries, Inr example_globals)"
  by (simp add: load_module_def passing_world_def example_world_def example_globals_def
      build_queries_def check_output_text_def rstrip_def strip_def isspace_def
      VERSION_command_def BUILD_DATE_command_def GIT_COMMIT_command_def
      GIT_TREE_STATE_command_def GIT_TAG_command_def)

lemma str_int_small: "str_int 0 = ''0''" "str_int 1 = ''1''" "str_int 2 = ''2''"
  by (simp_all add: str_int_def str_nat.simps)

lemma bad_argument_2_2:
  "bad_argument 2 2 = ''bad argument ci_index 2 and ci_total 2, should be 0 <= ci_index < ci_total''"
  by (simp add: bad_argument_def str_int_small)

subsection \<open>Validation of the arguments\<close>

text \<open>
  Claim C3. Once the two arguments are read as integers, \<^verbatim>\<open>main\<close> raises the error
  \<^verbatim>\<open>bad argument ci_index \<dots> and ci_total \<dots>, should be 0 <= ci_index < ci_total\<close>, with the
  two numbers in it, without doing anything else, exactly when
  \<open>0 \<le> ci_index < ci_total\<close> and \<open>0 < ci_total\<close> do not both hold; when they hold it scans
  the files, selects the shard of the job and runs the runner on it, and the error it may
  then raise is not that one.
\<close>

theorem main_validates_arguments:
  assumes "parse_args w = Inr args"
    and "int_of_str w (ns_ci_index args) = Some ci_index"
    and "int_of_str w (ns_ci_total args) = Some ci_total"
  shows "(\<not> (0 \<le> ci_index \<and> ci_index < ci_total \<and> 0 < ci_total) \<longrightarrow>
            main g w = ([], Inl (RuntimeError (bad_argument ci_index ci_total))))
       \<and> (0 \<le> ci_index \<and> ci_index < ci_total \<and> 0 < ci_total \<longrightarrow>
            fst (main g w) =
              [Glob EXTRACT_GLOB_PATH, Glob EXCLUDE_GLOB_PATH,
               Run (cmd g (if ns_export_cache args then Safe else Import) ci_index
                      (desc_regex (desc_run (test_files w) ci_index ci_total)))
                   (proc_env g w)]
            \<and> snd (main g w) \<noteq> Inl (RuntimeError (bad_argument ci_index ci_total)))"
proof (intro conjI impI)
  assume "\<not> (0 \<le> ci_index \<and> ci_index < ci_total \<and> 0 < ci_total)"
  then have "ci_index \<ge> ci_total \<or> ci_index < 0 \<or> ci_total \<le> 0"
    by linarith
  then show "main g w = ([], Inl (RuntimeError (bad_argument ci_index ci_total)))"
    using main_parsed [OF assms, of g] by simp
next
  assume valid: "0 \<le> ci_index \<and> ci_index < ci_total \<and> 0 < ci_total"
  then have accepted: "\<not> (ci_index \<ge> ci_total \<or> ci_index < 0 \<or> ci_total \<le> 0)"
    by linarith
  from valid have nonzero: "test_files w = [] \<or> ci_total \<noteq> 0"
    by simp
  from main_parsed [OF assms, of g] accepted
  have run: "main g w =
      (Glob EXTRACT_GLOB_PATH # Glob EXCLUDE_GLOB_PATH #
         fst (run_test g w (test_files w) ci_index ci_total
                (if ns_export_cache args then Safe else Import)),
       snd (run_test g w (test_files w) ci_index ci_total
                (if ns_export_cache args then Safe else Import)))"
    by simp
  show "fst (main g w) =
      [Glob EXTRACT_GLOB_PATH, Glob EXCLUDE_GLOB_PATH,
       Run (cmd g (if ns_export_cache args then Safe else Import) ci_index
              (desc_regex (desc_run (test_files w) ci_index ci_total)))
           (proc_env g w)]"
    unfolding run fst_conv fst_run_test [OF nonzero] by (rule refl)
  show "snd (main g w) \<noteq> Inl (RuntimeError (bad_argument ci_index ci_total))"
    unfolding run snd_conv snd_run_test [OF nonzero] by (simp add: bad_argument_def)
qed

theorem main_validates_arguments_witness:
  "main example_globals rejected_world =
     ([], Inl (RuntimeError
        ''bad argument ci_index 2 and ci_total 2, should be 0 <= ci_index < ci_total''))
   \<and> fst (main example_globals example_world) =
       [Glob EXTRACT_GLOB_PATH, Glob EXCLUDE_GLOB_PATH,
        Run (cmd example_globals Import 0
               (desc_regex (desc_run (test_files example_world) 0 2)))
            (proc_env example_globals example_world)]"
proof -
  have rejected:
    "parse_args rejected_world =
       Inr \<lparr>ns_ci_index = ''2'', ns_ci_total = ''2'', ns_export_cache = False\<rparr>"
    "int_of_str rejected_world
       (ns_ci_index \<lparr>ns_ci_index = ''2'', ns_ci_total = ''2'', ns_export_cache = False\<rparr>) = Some 2"
    "int_of_str rejected_world
       (ns_ci_total \<lparr>ns_ci_index = ''2'', ns_ci_total = ''2'', ns_export_cache = False\<rparr>) = Some 2"
    by (simp_all add: rejected_world_def example_world_def)
  have accepted:
    "parse_args example_world =
       Inr \<lparr>ns_ci_index = ''0'', ns_ci_total = ''2'', ns_export_cache = False\<rparr>"
    "int_of_str example_world
       (ns_ci_index \<lparr>ns_ci_index = ''0'', ns_ci_total = ''2'', ns_export_cache = False\<rparr>) = Some 0"
    "int_of_str example_world
       (ns_ci_total \<lparr>ns_ci_index = ''0'', ns_ci_total = ''2'', ns_export_cache = False\<rparr>) = Some 2"
    by (simp_all add: example_world_def)
  from main_validates_arguments [OF rejected, of example_globals]
  have "main example_globals rejected_world = ([], Inl (RuntimeError (bad_argument 2 2)))"
    by simp
  moreover from main_validates_arguments [OF accepted, of example_globals]
  have "fst (main example_globals example_world) =
      [Glob EXTRACT_GLOB_PATH, Glob EXCLUDE_GLOB_PATH,
       Run (cmd example_globals Import 0
              (desc_regex (desc_run (test_files example_world) 0 2)))
           (proc_env example_globals example_world)]"
    by simp
  ultimately show ?thesis
    by (simp add: bad_argument_2_2)
qed

text \<open>
  Claim C2, as stated, fails: the five build parameters are read with
  \<^verbatim>\<open>subprocess.check_output\<close> while the module is loaded, before \<^verbatim>\<open>main\<close> looks at the
  arguments. With the arguments \<^verbatim>\<open>2 2\<close> the script has spawned these five child processes
  when it raises the error.
\<close>

theorem script_spawns_before_validation:
  "script rejected_world =
     ([Check_output VERSION_command, Check_output BUILD_DATE_command,
       Check_output GIT_COMMIT_command, Check_output GIT_TREE_STATE_command,
       Check_output GIT_TAG_command],
      Inl (RuntimeError
        ''bad argument ci_index 2 and ci_total 2, should be 0 <= ci_index < ci_total''))"
proof -
  have "main example_globals rejected_world = ([], Inl (RuntimeError (bad_argument 2 2)))"
    by (simp add: main_def rejected_world_def example_world_def)
  with script_loaded [OF load_module_rejected] show ?thesis
    by (simp add: build_queries_def bad_argument_2_2)
qed

text \<open>
  Claim C2, amended. For every invalid pair of arguments the script fails the validation
  before it scans the files and before it starts the runner: the child processes it has
  spawned by then are the build parameter queries of the module, in their order, and when
  all five of them succeed the script ends with the error of the validation.
\<close>

theorem script_rejects_before_runner:
  assumes "parse_args w = Inr args"
    and "int_of_str w (ns_ci_index args) = Some ci_index"
    and "int_of_str w (ns_ci_total args) = Some ci_total"
    and "ci_index < 0 \<or> ci_index \<ge> ci_total \<or> ci_total \<le> 0"
  shows "prefix (fst (script w)) build_queries
       \<and> (\<forall>c e. Run c e \<notin> set (fst (script w)))
       \<and> (\<forall>p. Glob p \<notin> set (fst (script w)))
       \<and> (\<forall>events g. load_module w = (events, Inr g) \<longrightarrow>
             script w = (build_queries, Inl (RuntimeError (bad_argument ci_index ci_total))))"
proof -
  have rejected: "main g w = ([], Inl (RuntimeError (bad_argument ci_index ci_total)))" for g
    using main_parsed [OF assms(1-3), of g] assms(4) by auto
  have loaded: "script w = (build_queries, Inl (RuntimeError (bad_argument ci_index ci_total)))"
    if "load_module w = (events, Inr g)" for events g
    using script_loaded [OF that] load_module_Inr [OF that] rejected [of g] by simp
  have "fst (script w) = fst (load_module w)"
  proof (cases "load_module w")
    case (Pair events result)
    show ?thesis
    proof (cases result)
      case (Inl e)
      with Pair show ?thesis
        by (simp add: script_not_loaded)
    next
      case (Inr g)
      with Pair rejected [of g] show ?thesis
        by (simp add: script_loaded)
    qed
  qed
  with load_module_events [of w] have pre: "prefix (fst (script w)) build_queries"
    by simp
  then have "set (fst (script w)) \<subseteq> set build_queries"
    by (rule set_mono_prefix)
  then have "Run c e \<notin> set (fst (script w))" and "Glob p \<notin> set (fst (script w))" for c e p
    by (auto simp: build_queries_def)
  with pre loaded show ?thesis
    by blast
qed

theorem script_rejects_before_runner_witness:
  "prefix (fst (script rejected_world)) build_queries
   \<and> script rejected_world = (build_queries, Inl (RuntimeError (bad_argument 2 2)))"
proof -
  have parsed:
    "parse_args rejected_world =
       Inr \<lparr>ns_ci_index = ''2'', ns_ci_total = ''2'', ns_export_cache = False\<rparr>"
    "int_of_str rejected_world
       (ns_ci_index \<lparr>ns_ci_index = ''2'', ns_ci_total = ''2'', ns_export_cache = False\<rparr>) = Some 2"
    "int_of_str rejected_world
       (ns_ci_total \<lparr>ns_ci_index = ''2'', ns_ci_total = ''2'', ns_export_cache = False\<rparr>) = Some 2"
    by (simp_all add: rejected_world_def example_world_def)
  have invalid: "(2::int) < 0 \<or> (2::int) \<ge> 2 \<or> (2::int) \<le> 0"
    by simp
  note rejected = script_rejects_before_runner [OF parsed invalid]
  from rejected have "prefix (fst (script rejected_world)) build_queries"
    by (rule conjunct1)
  moreover from rejected
  have "\<forall>events g. load_module rejected_world = (events, Inr g) \<longrightarrow>
      script rejected_world = (build_queries, Inl (RuntimeError (bad_argument 2 2)))"
    by simp
  with load_module_rejected
  have "script rejected_world = (build_queries, Inl (RuntimeError (bad_argument 2 2)))"
    by blast
  ultimately show ?thesis
    by (rule conjI)
qed

subsection \<open>The exit status of the runner\<close>

text \<open>
  Claim C6. In a run that reaches the runner, let \<open>n\<close> be the return code of the child
  process. When \<open>n\<close> is not 0 the script ends with the runtime error
  \<^verbatim>\<open>ginkgo test failed: return code n\<close>, whose message contains the decimal digits of \<open>n\<close>,
  and the exit status of the script is not 0; when \<open>n\<close> is 0 the script returns without an
  error, with exit status 0.
\<close>

theorem script_child_returncode:
  assumes "load_module w = (events, Inr g)"
    and "parse_args w = Inr args"
    and "int_of_str w (ns_ci_index args) = Some ci_index"
    and "int_of_str w (ns_ci_total args) = Some ci_total"
    and "0 \<le> ci_index" and "ci_index < ci_total"
    and "n = returncode w
               (cmd g (if ns_export_cache args then Safe else Import) ci_index
                  (desc_regex (desc_run (test_files w) ci_index ci_total)))
               (proc_env g w)"
  shows "(n \<noteq> 0 \<longrightarrow>
            snd (script w) = Inl (RuntimeError (''ginkgo test failed: return code '' @ str_int n))
            \<and> sublist (str_int n) (''ginkgo test failed: return code '' @ str_int n)
            \<and> exit_status (snd (script w)) \<noteq> 0)
       \<and> (n = 0 \<longrightarrow> snd (script w) = Inr () \<and> exit_status (snd (script w)) = 0)"
proof -
  from assms(5,6) have accepted: "\<not> (ci_index \<ge> ci_total \<or> ci_index < 0 \<or> ci_total \<le> 0)"
    by linarith
  from assms(5,6) have nonzero: "test_files w = [] \<or> ci_total \<noteq> 0"
    by simp
  have "snd (script w) = snd (main g w)"
    using script_loaded [OF assms(1)] by simp
  also have "\<dots> = snd (run_test g w (test_files w) ci_index ci_total
                       (if ns_export_cache args then Safe else Import))"
    using main_parsed [OF assms(2-4), of g] accepted by simp
  also have "\<dots> =
      (if n \<noteq> 0 then Inl (RuntimeError (''ginkgo test failed: return code '' @ str_int n))
       else Inr ())"
    unfolding snd_run_test [OF nonzero] assms(7) by (rule refl)
  finally have result: "snd (script w) =
      (if n \<noteq> 0 then Inl (RuntimeError (''ginkgo test failed: return code '' @ str_int n))
       else Inr ())" .
  have contains: "sublist (str_int n) (''ginkgo test failed: return code '' @ str_int n)"
    by (rule sublist_append_leftI)
  from result contains show ?thesis
    by simp
qed

theorem script_child_returncode_witness:
  "snd (script example_world) = Inl (RuntimeError ''ginkgo test failed: return code 1'')
   \<and> exit_status (snd (script example_world)) \<noteq> 0
   \<and> snd (script passing_world) = Inr ()"
proof -
  have failing:
    "parse_args example_world =
       Inr \<lparr>ns_ci_index = ''0'', ns_ci_total = ''2'', ns_export_cache = False\<rparr>"
    "int_of_str example_world
       (ns_ci_index \<lparr>ns_ci_index = ''0'', ns_ci_total = ''2'', ns_export_cache = False\<rparr>) = Some 0"
    "int_of_str example_world
       (ns_ci_total \<lparr>ns_ci_index = ''0'', ns_ci_total = ''2'', ns_export_cache = False\<rparr>) = Some 2"
    by (simp_all add: example_world_def)
  have passing:
    "parse_args passing_world =
       Inr \<lparr>ns_ci_index = ''0'', ns_ci_total = ''2'', ns_export_cache = False\<rparr>"
    "int_of_str passing_world
       (ns_ci_index \<lparr>ns_ci_index = ''0'', ns_ci_total = ''2'', ns_export_cache = False\<rparr>) = Some 0"
    "int_of_str passing_world
       (ns_ci_total \<lparr>ns_ci_index = ''0'', ns_ci_total = ''2'', ns_export_cache = False\<rparr>) = Some 2"
    by (simp_all add: passing_world_def example_world_def)
  have valid: "(0::int) \<le> 0" "(0::int) < 2"
    by simp_all
  have one: "1 = returncode example_world c e" for c e
    by (simp add: example_world_def)
  have zero: "0 = returncode passing_world c e" for c e
    by (simp add: passing_world_def example_world_def)
  from script_child_returncode [OF load_module_example failing valid one]
  have "snd (script example_world) =
      Inl (RuntimeError (''ginkgo test failed: return code '' @ str_int 1))"
    and "exit_status (snd (script example_world)) \<noteq> 0"
    by simp_all
  moreover from script_child_returncode [OF load_module_passing passing valid zero]
  have "snd (script passing_world) = Inr ()"
    by simp
  ultimately show ?thesis
    by (simp add: str_int_small)
qed

subsection \<open>The tree state\<close>




end
